theory Spec2Isabelle
  imports Main
begin

section \<open>Cookie-backed HTTP sessions: the package \<open>sessions\<close>\<close>

text \<open>
  The development follows the source file of the package (the revision with the
  \<open>quiet\<close> flag, the response wrapper and \<open>TemplMiddleware\<close>). The earlier revision
  \<open>session.go\<close> has the same \<open>New\<close>, \<open>init\<close>, \<open>fromReq\<close>, \<open>saveCtx\<close> and accessors,
  except that it logs without looking at a \<open>quiet\<close> flag.

  What lies outside the package is a parameter or a small model:
  \<^item> the codec \<open>securecookie.SecureCookie\<close> is a record of two functions, \<open>enc\<close> and
    \<open>dec\<close>, about which nothing is assumed, and of the maximum age set by \<open>New\<close>;
  \<^item> a value of type \<open>interface{}\<close> is \<open>NilValue\<close> (the nil interface) or \<open>Val x\<close>;
  \<^item> a Go map is \<open>None\<close> (the nil map) or \<open>Some m\<close>; reading the nil map gives the
    zero value, \<open>delete\<close>, \<open>range\<close> and \<open>clear\<close> on it do nothing, writing panics;
  \<^item> a \<open>*session\<close> is an address in an explicit heap, since the request context and
    the accessors share the record they mutate;
  \<^item> a \<open>context.Context\<close> is the value stored under the private \<open>sessionCtxKey\<close>:
    \<open>None\<close>, or \<open>Some p\<close> for the \<open>*session\<close> \<open>p\<close>;
  \<^item> an \<open>http.ResponseWriter\<close> is either a plain writer or the package's
    \<open>responseWrapper\<close> around another writer. Of the header map only the
    \<open>Set-Cookie\<close> entries are kept, as cookies in the order they were added, and
    \<open>http.SetCookie\<close> adds one entry (the serialisation of the cookie by \<open>net/http\<close>
    is not modelled).
\<close>

subsection \<open>Constants\<close>

definition defaultSessionName :: string where
  "defaultSessionName = ''_session''"

definition defaultMaxAge :: int where
  "defaultMaxAge = 86400 * 365"

text \<open>\<open>time.Second\<close> as a \<open>time.Duration\<close>: a count of nanoseconds.\<close>

definition Second :: int where
  "Second = 1000000000"

subsection \<open>Values, maps and the session record\<close>

datatype 'a iface = NilValue | Val 'a

type_synonym 'a gomap = "(string \<rightharpoonup> 'a iface) option"

text \<open>\<open>m[k]\<close> for reading: the zero value \<open>nil\<close> on the nil map and on a missing key.\<close>

definition index :: "'a gomap \<Rightarrow> string \<Rightarrow> 'a iface" where
  "index m k = (case m of None \<Rightarrow> NilValue
                | Some f \<Rightarrow> (case f k of None \<Rightarrow> NilValue | Some v \<Rightarrow> v))"


text \<open>\<open>clear(m)\<close>: empties the map in place; the nil map stays nil.\<close>

definition clear :: "'a gomap \<Rightarrow> 'a gomap" where
  "clear m = (case m of None \<Rightarrow> None | Some f \<Rightarrow> Some Map.empty)"

text \<open>
  The loop \<open>values := make(map); for k, v := range m { values[k] = v }\<close>: a fresh,
  non-nil map with the entries of \<open>m\<close>; ranging over the nil map runs no iteration.
\<close>

definition copy_of :: "'a gomap \<Rightarrow> 'a gomap" where
  "copy_of m = (case m of None \<Rightarrow> Some Map.empty | Some f \<Rightarrow> Some f)"

record 'a session =
  Data :: "'a gomap"
  Flashes :: "'a gomap"

text \<open>\<open>&session{}\<close>: both maps nil.\<close>

definition zero_session :: "'a session" where
  "zero_session = \<lparr>Data = None, Flashes = None\<rparr>"

text \<open>The method \<open>(*session).init\<close>.\<close>

definition session_init :: "'a session \<Rightarrow> 'a session" where
  "session_init s =
     (let s1 = (if Data s = None then s\<lparr>Data := Some Map.empty\<rparr> else s)
      in if Flashes s1 = None then s1\<lparr>Flashes := Some Map.empty\<rparr> else s1)"

subsection \<open>The codec, the manager and its construction\<close>

text \<open>
  \<open>enc\<close> and \<open>dec\<close> stand for \<open>Encode(name, value)\<close> and \<open>Decode(name, value, dst)\<close> of
  the codec. Both get the configured maximum age and the current time, on which
  the real codec depends. \<open>enc\<close> returns the error (\<open>Inl\<close>) or the encoded string;
  \<open>dec\<close> returns the error, if any, and the destination record as it has left it.
\<close>

record 'a SecureCookie =
  hashKey :: string
  maxAge :: int
  enc :: "int \<Rightarrow> int \<Rightarrow> string \<Rightarrow> 'a session \<Rightarrow> string + string"
  dec :: "int \<Rightarrow> int \<Rightarrow> string \<Rightarrow> string \<Rightarrow> 'a session \<Rightarrow> string option \<times> 'a session"

text \<open>The setter \<open>(*SecureCookie).MaxAge\<close>.\<close>

definition sc_MaxAge :: "int \<Rightarrow> 'a SecureCookie \<Rightarrow> 'a SecureCookie" where
  "sc_MaxAge v c = c\<lparr>maxAge := v\<rparr>"

definition Encode :: "'a SecureCookie \<Rightarrow> int \<Rightarrow> string \<Rightarrow> 'a session \<Rightarrow> string + string" where
  "Encode c t nm v = enc c (maxAge c) t nm v"

definition Decode ::
  "'a SecureCookie \<Rightarrow> int \<Rightarrow> string \<Rightarrow> string \<Rightarrow> 'a session \<Rightarrow> string option \<times> 'a session" where
  "Decode c t nm v dst = dec c (maxAge c) t nm v dst"

text \<open>
  The codec's documented contract for its maximum age: \<open>0\<close> means no restriction,
  any other value is compared with the age of the cookie's timestamp.
\<close>

definition expiry_disabled :: "'a SecureCookie \<Rightarrow> bool" where
  "expiry_disabled c = (maxAge c = 0)"

record Options =
  Name :: string
  MaxAge :: int
  Quiet :: bool

record 'a Session =
  sc :: "'a SecureCookie"
  name :: string
  quiet :: bool

text \<open>
  \<open>New(secret, opts...)\<close>. The loop over the variadic \<open>opts\<close> keeps the last one;
  with none, the options are the zero \<open>Options\<close>. \<open>securecookie_New\<close> stands for
  \<open>securecookie.New(secret, nil)\<close>.
\<close>

definition zero_Options :: Options where
  "zero_Options = \<lparr>Name = [], MaxAge = 0, Quiet = False\<rparr>"

definition New :: "(string \<Rightarrow> 'a SecureCookie) \<Rightarrow> string \<Rightarrow> Options list \<Rightarrow> 'a Session" where
  "New securecookie_New secret opts =
     (let o0 = foldl (\<lambda>cur opt. opt) zero_Options opts;
          o1 = (if Name o0 = [] then o0\<lparr>Name := defaultSessionName\<rparr> else o0);
          o2 = (if MaxAge o1 = 0 then o1\<lparr>MaxAge := defaultMaxAge\<rparr>
                else if MaxAge o1 = - 1 then o1\<lparr>MaxAge := 0\<rparr>
                else o1);
          c = sc_MaxAge (MaxAge o2) (securecookie_New secret)
      in \<lparr>sc = c, name = Name o2, quiet = Quiet o2\<rparr>)"

subsection \<open>Requests, cookies, response writers and the world\<close>

text \<open>
  Of an \<open>*http.Request\<close> the package reads the context, the cookies (through
  \<open>r.Cookie\<close>, which returns the first cookie of that name or \<open>ErrNoCookie\<close>) and,
  in the middleware of the later revision, the path.
\<close>

record request =
  ctx :: "nat option"
  req_cookies :: "(string \<times> string) list"
  path :: string

definition Cookie :: "request \<Rightarrow> string \<Rightarrow> string option" where
  "Cookie r nm = map_of (req_cookies r) nm"

text \<open>The fields of \<open>http.Cookie\<close> that the package sets; \<open>Expires\<close> in nanoseconds.\<close>

record cookie =
  CookieName :: string
  CookieMaxAge :: int
  Expires :: int
  Value :: string
  Path :: string
  HttpOnly :: bool
  Secure :: bool

text \<open>
  A plain writer keeps the \<open>Set-Cookie\<close> entries of its header map, the status
  written (\<open>None\<close> before \<open>WriteHeader\<close> or the first \<open>Write\<close>), and the body. A
  writer that is \<open>broken\<close> fails every \<open>Write\<close>.
\<close>

record response =
  set_cookie :: "cookie list"
  status :: "int option"
  body :: string
  broken :: bool

text \<open>\<open>Wrapped b c w\<close> is the package's \<open>responseWrapper{b, c, w}\<close>.\<close>

datatype rw = Plain response | Wrapped string int rw

text \<open>\<open>w.Header()\<close>, read: the wrapper hands out the header map of the writer below.\<close>

fun Header :: "rw \<Rightarrow> cookie list" where
  "Header (Plain resp) = set_cookie resp"
| "Header (Wrapped b c w) = Header w"

text \<open>\<open>http.SetCookie(w, ck)\<close>, that is \<open>w.Header().Add("Set-Cookie", ck.String())\<close>.\<close>

fun SetCookie :: "rw \<Rightarrow> cookie \<Rightarrow> rw" where
  "SetCookie (Plain resp) ck = Plain (resp\<lparr>set_cookie := set_cookie resp @ [ck]\<rparr>)"
| "SetCookie (Wrapped b c w) ck = Wrapped b c (SetCookie w ck)"

text \<open>
  \<open>WriteHeader\<close>: a plain writer keeps the first status; the wrapper stores the code
  and forwards nothing.
\<close>

fun WriteHeader :: "rw \<Rightarrow> int \<Rightarrow> rw" where
  "WriteHeader (Plain resp) code =
     Plain (if status resp = None then resp\<lparr>status := Some code\<rparr> else resp)"
| "WriteHeader (Wrapped b c w) code = Wrapped b code w"

text \<open>
  \<open>Write\<close>: a plain writer sends status 200 first if none was written; the wrapper
  appends to its buffer, which never fails.
\<close>

fun Write :: "rw \<Rightarrow> string \<Rightarrow> rw \<times> string option" where
  "Write (Plain resp) data =
     (if broken resp then (Plain resp, Some ''write failed'')
      else (Plain ((if status resp = None then resp\<lparr>status := Some 200\<rparr> else resp)
                     \<lparr>body := body resp @ data\<rparr>), None))"
| "Write (Wrapped b c w) data = (Wrapped (b @ data) c w, None)"

text \<open>
  \<open>(*responseWrapper).Flush\<close>: the stored status goes to the writer below, then the
  buffer (\<open>bytes.Buffer.WriteTo\<close> writes only a non-empty buffer, and drains it when
  the write succeeds). The method exists on the wrapper only.
\<close>

fun Flush :: "rw \<Rightarrow> rw \<times> string option" where
  "Flush (Wrapped b c w) =
     (let w1 = WriteHeader w c
      in if b = [] then (Wrapped b c w1, None)
         else (case Write w1 b of
                 (w2, None) \<Rightarrow> (Wrapped [] c w2, None)
               | (w2, Some e) \<Rightarrow> (Wrapped b c w2, Some e)))"
| "Flush (Plain resp) = (Plain resp, None)"

text \<open>
  The world: the heap of session records with the next free address, the clock
  read by \<open>time.Now\<close>, the lines printed on standard output, and the calls made to
  the codec, in order.
\<close>

datatype call = DecodeCall string string | EncodeCall string

record 'a world =
  heap :: "nat \<Rightarrow> 'a session"
  nxt :: nat
  now :: int
  stdout :: "string list"
  calls :: "call list"

text \<open>\<open>ss := &session{...}\<close>: a record at a fresh address.\<close>

definition alloc :: "'a session \<Rightarrow> 'a world \<Rightarrow> nat \<times> 'a world" where
  "alloc x \<sigma> = (nxt \<sigma>, \<sigma>\<lparr>heap := (heap \<sigma>)(nxt \<sigma> := x), nxt := Suc (nxt \<sigma>)\<rparr>)"

definition store :: "nat \<Rightarrow> 'a session \<Rightarrow> 'a world \<Rightarrow> 'a world" where
  "store p x \<sigma> = \<sigma>\<lparr>heap := (heap \<sigma>)(p := x)\<rparr>"

text \<open>\<open>if !s.quiet { fmt.Printf(line) }\<close>.\<close>

definition printf_unless_quiet :: "'a Session \<Rightarrow> string \<Rightarrow> 'a world \<Rightarrow> 'a world" where
  "printf_unless_quiet s line \<sigma> = (if \<not> quiet s then \<sigma>\<lparr>stdout := stdout \<sigma> @ [line]\<rparr> else \<sigma>)"

datatype panic = NilMapWrite | HandlerPanic string

subsection \<open>The request-scoped cache and the commit\<close>

text \<open>
  \<open>fromReq\<close>. With a record in the context that record is returned. Without the
  cookie a fresh initialised record is returned. Otherwise the codec decodes into
  a fresh zero record; on an error the error is printed and the record is
  initialised; on success the record is returned as the codec has left it.
\<close>

definition fromReq :: "'a Session \<Rightarrow> request \<Rightarrow> 'a world \<Rightarrow> nat \<times> 'a world" where
  "fromReq s r \<sigma> =
     (case ctx r of
        Some p \<Rightarrow> (p, \<sigma>)
      | None \<Rightarrow>
          (case Cookie r (name s) of
             None \<Rightarrow> alloc (session_init zero_session) \<sigma>
           | Some v \<Rightarrow>
               (let (p, \<sigma>1) = alloc zero_session \<sigma>;
                    (err, ss) = Decode (sc s) (now \<sigma>1) (name s) v (heap \<sigma>1 p);
                    \<sigma>2 = store p ss (\<sigma>1\<lparr>calls := calls \<sigma>1 @ [DecodeCall (name s) v]\<rparr>)
                in case err of
                     Some e \<Rightarrow>
                       (let \<sigma>3 = printf_unless_quiet s
                                  (''sessions: [ERROR] failed to decode session from cookie: '' @ e) \<sigma>2
                        in (p, store p (session_init (heap \<sigma>3 p)) \<sigma>3))
                   | None \<Rightarrow> (p, \<sigma>2))))"

text \<open>The cookie literal of \<open>saveCtx\<close> and of \<open>TemplMiddleware\<close>.\<close>

definition session_cookie :: "'a Session \<Rightarrow> int \<Rightarrow> string \<Rightarrow> cookie" where
  "session_cookie s t encoded =
     \<lparr>CookieName = name s,
      CookieMaxAge = defaultMaxAge,
      Expires = t + defaultMaxAge * Second,
      Value = encoded,
      Path = ''/'',
      HttpOnly = True,
      Secure = True\<rparr>"

text \<open>
  \<open>saveCtx\<close>. \<open>*r = *r2\<close> overwrites the caller's request with one whose context
  holds the record, so the request is returned. Then the record is encoded; on an
  error the error is printed and nothing else happens.
\<close>

definition saveCtx ::
  "'a Session \<Rightarrow> rw \<Rightarrow> request \<Rightarrow> nat \<Rightarrow> 'a world \<Rightarrow> rw \<times> request \<times> 'a world" where
  "saveCtx s w r p \<sigma> =
     (let r2 = r\<lparr>ctx := Some p\<rparr>;
          \<sigma>1 = \<sigma>\<lparr>calls := calls \<sigma> @ [EncodeCall (name s)]\<rparr>
      in case Encode (sc s) (now \<sigma>) (name s) (heap \<sigma> p) of
           Inl e \<Rightarrow>
             (w, r2, printf_unless_quiet s (''sessions: [ERROR} failed to encode cookie: '' @ e) \<sigma>1)
         | Inr encoded \<Rightarrow> (SetCookie w (session_cookie s (now \<sigma>) encoded), r2, \<sigma>1))"

subsection \<open>The accessors\<close>

definition Get :: "'a Session \<Rightarrow> request \<Rightarrow> string \<Rightarrow> 'a world \<Rightarrow> 'a iface \<times> 'a world" where
  "Get s r key \<sigma> = (let (p, \<sigma>1) = fromReq s r \<sigma> in (index (Data (heap \<sigma>1 p)) key, \<sigma>1))"

definition List :: "'a Session \<Rightarrow> request \<Rightarrow> 'a world \<Rightarrow> 'a gomap \<times> 'a world" where
  "List s r \<sigma> = (let (p, \<sigma>1) = fromReq s r \<sigma> in (Data (heap \<sigma>1 p), \<sigma>1))"

text \<open>\<open>data.Data[key] = value\<close> panics on the nil map.\<close>

definition Set ::
  "'a Session \<Rightarrow> rw \<Rightarrow> request \<Rightarrow> string \<Rightarrow> 'a iface \<Rightarrow> 'a world
     \<Rightarrow> panic + rw \<times> request \<times> 'a world" where
  "Set s w r key v \<sigma> =
     (let (p, \<sigma>1) = fromReq s r \<sigma>
      in case Data (heap \<sigma>1 p) of
           None \<Rightarrow> Inl NilMapWrite
         | Some m \<Rightarrow>
             Inr (saveCtx s w r p (store p ((heap \<sigma>1 p)\<lparr>Data := Some (m(key \<mapsto> v))\<rparr>) \<sigma>1)))"



definition Flash ::
  "'a Session \<Rightarrow> rw \<Rightarrow> request \<Rightarrow> string \<Rightarrow> 'a iface \<Rightarrow> 'a world
     \<Rightarrow> panic + rw \<times> request \<times> 'a world" where
  "Flash s w r key v \<sigma> =
     (let (p, \<sigma>1) = fromReq s r \<sigma>
      in case Flashes (heap \<sigma>1 p) of
           None \<Rightarrow> Inl NilMapWrite
         | Some m \<Rightarrow>
             Inr (saveCtx s w r p (store p ((heap \<sigma>1 p)\<lparr>Flashes := Some (m(key \<mapsto> v))\<rparr>) \<sigma>1)))"

definition Flashes_all ::
  "'a Session \<Rightarrow> rw \<Rightarrow> request \<Rightarrow> 'a world \<Rightarrow> 'a gomap \<times> rw \<times> request \<times> 'a world" where
  "Flashes_all s w r \<sigma> =
     (let (p, \<sigma>1) = fromReq s r \<sigma>;
          values = copy_of (Flashes (heap \<sigma>1 p));
          \<sigma>2 = store p ((heap \<sigma>1 p)\<lparr>Flashes := Some Map.empty\<rparr>) \<sigma>1
      in (values, saveCtx s w r p \<sigma>2))"

text \<open>
  \<open>Flashes_all\<close> is the method \<open>(*Session).Flashes\<close>; the name \<open>Flashes\<close> is the field
  of the record.
\<close>

subsection \<open>The buffered-response middleware and the context-only accessor\<close>

text \<open>
  A handler is run on a writer, a request and the world; a panic of the handler is
  \<open>Inl\<close>. The writer and the request it returns are the ones it was given, with
  what the handler did to them.
\<close>

type_synonym 'a handler = "rw \<Rightarrow> request \<Rightarrow> 'a world \<Rightarrow> panic + rw \<times> request \<times> 'a world"

text \<open>The field \<open>w\<close> of a \<open>responseWrapper\<close>.\<close>

fun underlying :: "rw \<Rightarrow> rw" where
  "underlying (Wrapped b c w) = w"
| "underlying (Plain resp) = Plain resp"

text \<open>
  The first part of the handler returned by \<open>TemplMiddleware\<close>: a fresh record,
  initialised when the cookie is missing or does not decode, and otherwise left as
  the codec has filled it.
\<close>

definition mw_entry :: "'a Session \<Rightarrow> request \<Rightarrow> 'a world \<Rightarrow> nat \<times> 'a world" where
  "mw_entry s r \<sigma> =
     (let (p, \<sigma>1) = alloc zero_session \<sigma>
      in case Cookie r (name s) of
           None \<Rightarrow> (p, store p (session_init (heap \<sigma>1 p)) \<sigma>1)
         | Some v \<Rightarrow>
             (let (err, ss) = Decode (sc s) (now \<sigma>1) (name s) v (heap \<sigma>1 p);
                  \<sigma>2 = store p ss (\<sigma>1\<lparr>calls := calls \<sigma>1 @ [DecodeCall (name s) v]\<rparr>)
              in case err of
                   Some e \<Rightarrow>
                     (let \<sigma>3 = printf_unless_quiet s
                                (''sessions: [ERROR] failed to decode session from cookie: '' @ e) \<sigma>2
                      in (p, store p (session_init (heap \<sigma>3 p)) \<sigma>3))
                 | None \<Rightarrow> (p, \<sigma>2)))"

text \<open>
  The part after \<open>next.ServeHTTP\<close> has returned: the record is encoded; on an error
  the error is printed and the function returns; otherwise the cookie is set on
  the wrapper and the wrapper is flushed. The result is the writer that was
  wrapped.
\<close>

definition mw_finish :: "'a Session \<Rightarrow> nat \<Rightarrow> rw \<Rightarrow> 'a world \<Rightarrow> rw \<times> 'a world" where
  "mw_finish s p wrapper \<sigma> =
     (let \<sigma>1 = \<sigma>\<lparr>calls := calls \<sigma> @ [EncodeCall (name s)]\<rparr>
      in case Encode (sc s) (now \<sigma>) (name s) (heap \<sigma> p) of
           Inl e \<Rightarrow>
             (underlying wrapper,
              printf_unless_quiet s (''sessions: [ERROR} failed to encode cookie: '' @ e) \<sigma>1)
         | Inr encoded \<Rightarrow>
             (let wrapper1 = SetCookie wrapper (session_cookie s (now \<sigma>) encoded);
                  (wrapper2, ferr) = Flush wrapper1
              in (underlying wrapper2,
                  (case ferr of
                     Some e \<Rightarrow> printf_unless_quiet s
                       (''sessions: [ERROR] failed to write http response in call to sessions.TemplMiddleware: '' @ e)
                       \<sigma>1
                   | None \<Rightarrow> \<sigma>1))))"

text \<open>
  \<open>TemplMiddleware(next)\<close>. The handler gets the wrapper (empty buffer, status 200)
  and a copy of the request whose context holds the record (\<open>r.WithContext\<close>), so
  what the handler does to its request is not seen here. The buffer pool is not
  modelled: \<open>b.Reset()\<close> makes every request start with an empty buffer.
\<close>

definition TemplMiddleware :: "'a Session \<Rightarrow> 'a handler \<Rightarrow> 'a handler" where
  "TemplMiddleware s next w r \<sigma> =
     (let (p, \<sigma>1) = mw_entry s r \<sigma>
      in case next (Wrapped [] 200 w) (r\<lparr>ctx := Some p\<rparr>) \<sigma>1 of
           Inl e \<Rightarrow> Inl e
         | Inr (wrapper, r1, \<sigma>2) \<Rightarrow>
             (let (w1, \<sigma>3) = mw_finish s p wrapper \<sigma>2 in Inr (w1, r, \<sigma>3)))"

text \<open>The warning that \<open>FlashesCtx\<close> prints when the context holds no record.\<close>

definition FlashesCtx_warning :: string where
  "FlashesCtx_warning =
     ''sessions: [WARNING] FlashesCtx was called but the session is nil - '' @
     ''did you remember to wrap your handler in sessions.TemplMiddleware?''"

text \<open>\<open>FlashesCtx(ctx)\<close>: the argument is the context, here the value under the key.\<close>

definition FlashesCtx :: "'a Session \<Rightarrow> nat option \<Rightarrow> 'a world \<Rightarrow> 'a gomap \<times> 'a world" where
  "FlashesCtx s c \<sigma> =
     (case c of
        Some p \<Rightarrow>
          (copy_of (Flashes (heap \<sigma> p)),
           store p ((heap \<sigma> p)\<lparr>Flashes := clear (Flashes (heap \<sigma> p))\<rparr>) \<sigma>)
      | None \<Rightarrow> (Some Map.empty, printf_unless_quiet s FlashesCtx_warning \<sigma>))"

text \<open>
  Modelled from the spec: the form \<open>TemplMiddleware(next, paths...)\<close> that the tests of
  the later revision call (\<open>s.TemplMiddleware(mux, "/skip-me")\<close>) is not among the
  sources; the one above takes the handler only. The interface section of the
  specification says that the middleware is "optionally given a set of request
  paths to exclude from session decoding/attachment": a request to such a path
  goes to the handler as it came, with the writer it came with.
\<close>

definition TemplMiddleware_paths :: "'a Session \<Rightarrow> 'a handler \<Rightarrow> string list \<Rightarrow> 'a handler" where
  "TemplMiddleware_paths s next paths w r \<sigma> =
     (if path r \<in> set paths then next w r \<sigma> else TemplMiddleware s next w r \<sigma>)"

subsection \<open>Sequences of calls and example inputs\<close>

text \<open>A handler body that flashes the pairs of a list in order, as the tests do.\<close>

fun Flash_each ::
  "'a Session \<Rightarrow> rw \<Rightarrow> request \<Rightarrow> (string \<times> 'a iface) list \<Rightarrow> 'a world
     \<Rightarrow> panic + rw \<times> request \<times> 'a world" where
  "Flash_each s w r [] \<sigma> = Inr (w, r, \<sigma>)"
| "Flash_each s w r ((k, v) # kvs) \<sigma> =
     (case Flash s w r k v \<sigma> of
        Inl e \<Rightarrow> Inl e
      | Inr (w1, r1, \<sigma>1) \<Rightarrow> Flash_each s w1 r1 kvs \<sigma>1)"

text \<open>
  A toy codec for the examples. It encodes every record. It decodes the value
  \<open>signed\<close> to a record with one data entry and one flash entry, the value \<open>partial\<close>
  to a record of which it fills the flash map only (as \<open>gob\<close> does with a stream
  that carries no \<open>Data\<close> field), and rejects every other value.
\<close>

definition example_codec :: "string \<Rightarrow> nat SecureCookie" where
  "example_codec secret =
     \<lparr>hashKey = secret,
      maxAge = 86400 * 30,
      enc = (\<lambda>age t nm v. Inr (''enc-'' @ nm)),
      dec = (\<lambda>age t nm v dst.
               if v = ''signed''
               then (None, \<lparr>Data = Some [''name'' \<mapsto> Val 7], Flashes = Some [''old'' \<mapsto> Val 1]\<rparr>)
               else if v = ''partial''
               then (None, dst\<lparr>Flashes := Some Map.empty\<rparr>)
               else (Some ''securecookie: the value is not valid'', dst))\<rparr>"

text \<open>A codec that cannot encode (the real one refuses a value that is too long).\<close>

definition failing_codec :: "string \<Rightarrow> nat SecureCookie" where
  "failing_codec secret =
     \<lparr>hashKey = secret,
      maxAge = 86400 * 30,
      enc = (\<lambda>age t nm v. Inl ''securecookie: the value is too long''),
      dec = (\<lambda>age t nm v dst. (Some ''securecookie: the value is not valid'', dst))\<rparr>"

definition example_manager :: "nat Session" where
  "example_manager = New example_codec ''secret'' []"

definition failing_manager :: "nat Session" where
  "failing_manager = New failing_codec ''secret'' []"


text \<open>
  A handler like the one the tests mount on an excluded path: it reads the flashes
  through the context and answers 204 when it sees none, 500 otherwise.
\<close>

definition skip_me_handler :: "nat Session \<Rightarrow> nat handler" where
  "skip_me_handler s w r \<sigma> =
     (case FlashesCtx s (ctx r) \<sigma> of
        (flashes, \<sigma>1) \<Rightarrow>
          Inr (WriteHeader w (if index flashes ''key'' = NilValue then 204 else 500), r, \<sigma>1))"

definition empty_world :: "nat world" where
  "empty_world = \<lparr>heap = (\<lambda>p. zero_session), nxt = 0, now = 1000, stdout = [], calls = []\<rparr>"

definition empty_response :: response where
  "empty_response = \<lparr>set_cookie = [], status = None, body = [], broken = False\<rparr>"

definition bare_request :: request where
  "bare_request = \<lparr>ctx = None, req_cookies = [], path = ''/''\<rparr>"

definition cookie_request :: "string \<Rightarrow> request" where
  "cookie_request v = \<lparr>ctx = None, req_cookies = [(''_session'', v)], path = ''/''\<rparr>"

text \<open>A handler that sets status 201 and writes two bytes of body.\<close>

definition created_handler :: "nat handler" where
  "created_handler w r \<sigma> = Inr (fst (Write (WriteHeader w 201) ''hi''), r, \<sigma>)"

section \<open>Properties\<close>

subsection \<open>Writers and the cache\<close>

lemma Header_SetCookie [simp]: "Header (SetCookie w ck) = Header w @ [ck]"
  by (induction w) simp_all

lemma Header_WriteHeader [simp]: "Header (WriteHeader w c) = Header w"
  by (cases w) simp_all


lemma Header_underlying [simp]: "Header (underlying w) = Header w"
  by (cases w) simp_all


lemma fromReq_cached: "ctx r = Some p \<Longrightarrow> fromReq s r \<sigma> = (p, \<sigma>)"
  by (simp add: fromReq_def)

lemma saveCtx_shape:
  "\<exists>w' \<sigma>'. saveCtx s w r p \<sigma> = (w', r\<lparr>ctx := Some p\<rparr>, \<sigma>') \<and> heap \<sigma>' = heap \<sigma>"
  by (simp add: saveCtx_def Let_def printf_unless_quiet_def split: sum.splits)

subsection \<open>Set, then Get\<close>



subsection \<open>Flash, then Flashes\<close>

lemma Flash_step:
  assumes "fromReq s r \<sigma> = (p, \<sigma>0)" and "Flashes (heap \<sigma>0 p) = Some f"
  shows "\<exists>w1 r1 \<sigma>1. Flash s w r k v \<sigma> = Inr (w1, r1, \<sigma>1) \<and> ctx r1 = Some p
           \<and> Flashes (heap \<sigma>1 p) = Some (f(k \<mapsto> v))"
proof -
  let ?\<sigma> = "store p ((heap \<sigma>0 p)\<lparr>Flashes := Some (f(k \<mapsto> v))\<rparr>) \<sigma>0"
  obtain w' \<sigma>' where sv: "saveCtx s w r p ?\<sigma> = (w', r\<lparr>ctx := Some p\<rparr>, \<sigma>')"
    and hp: "heap \<sigma>' = heap ?\<sigma>"
    using saveCtx_shape by blast
  have "Flash s w r k v \<sigma> = Inr (w', r\<lparr>ctx := Some p\<rparr>, \<sigma>')"
    using assms sv by (simp add: Flash_def)
  moreover have "Flashes (heap \<sigma>' p) = Some (f(k \<mapsto> v))"
    using hp by (simp add: store_def)
  ultimately show ?thesis by simp
qed

lemma map_add_upd_left:
  "f(k \<mapsto> v) ++ map_of (rev rest) = f ++ map_of (rev ((k, v) # rest))"
  by (rule ext) (simp add: map_add_def split: option.splits)

lemma Flash_each_cached:
  assumes "ctx r = Some p" and "Flashes (heap \<sigma> p) = Some f"
  shows "\<exists>w1 r1 \<sigma>1. Flash_each s w r kvs \<sigma> = Inr (w1, r1, \<sigma>1) \<and> ctx r1 = Some p
           \<and> Flashes (heap \<sigma>1 p) = Some (f ++ map_of (rev kvs))"
  using assms
proof (induction kvs arbitrary: w r \<sigma> f)
  case Nil
  then show ?case by simp
next
  case (Cons kv kvs)
  obtain k v where kv: "kv = (k, v)" by (cases kv)
  from Cons.prems obtain w1 r1 \<sigma>1 where
    st: "Flash s w r k v \<sigma> = Inr (w1, r1, \<sigma>1)" "ctx r1 = Some p"
        "Flashes (heap \<sigma>1 p) = Some (f(k \<mapsto> v))"
    using Flash_step [OF fromReq_cached] by blast
  from Cons.IH [OF st(2) st(3)] obtain w2 r2 \<sigma>2 where
    rest: "Flash_each s w1 r1 kvs \<sigma>1 = Inr (w2, r2, \<sigma>2)" "ctx r2 = Some p"
          "Flashes (heap \<sigma>2 p) = Some (f(k \<mapsto> v) ++ map_of (rev kvs))"
    by blast
  have 1: "Flash_each s w r (kv # kvs) \<sigma> = Inr (w2, r2, \<sigma>2)"
    using st(1) rest(1) by (simp add: kv)
  have 2: "Flashes (heap \<sigma>2 p) = Some (f ++ map_of (rev (kv # kvs)))"
    unfolding rest(3) kv map_add_upd_left ..
  show ?case
    apply (intro exI conjI)
      apply (rule 1)
     apply (rule rest(2))
    apply (rule 2)
    done
qed

lemma Flashes_all_step:
  assumes "fromReq s r \<sigma> = (p, \<sigma>0)"
  shows "\<exists>w1 r1 \<sigma>1. Flashes_all s w r \<sigma> = (copy_of (Flashes (heap \<sigma>0 p)), w1, r1, \<sigma>1)
           \<and> ctx r1 = Some p \<and> Flashes (heap \<sigma>1 p) = Some Map.empty"
proof -
  let ?\<sigma> = "store p ((heap \<sigma>0 p)\<lparr>Flashes := Some Map.empty\<rparr>) \<sigma>0"
  obtain w' \<sigma>' where sv: "saveCtx s w r p ?\<sigma> = (w', r\<lparr>ctx := Some p\<rparr>, \<sigma>')"
    and hp: "heap \<sigma>' = heap ?\<sigma>"
    using saveCtx_shape by blast
  have "Flashes_all s w r \<sigma> = (copy_of (Flashes (heap \<sigma>0 p)), w', r\<lparr>ctx := Some p\<rparr>, \<sigma>')"
    using assms sv by (simp add: Flashes_all_def)
  moreover have "Flashes (heap \<sigma>' p) = Some Map.empty"
    using hp by (simp add: store_def)
  ultimately show ?thesis by simp
qed

lemma Flashes_all_cached_empty:
  assumes "ctx r = Some p" and "Flashes (heap \<sigma> p) = Some Map.empty"
  shows "fst (Flashes_all s w r \<sigma>) = Some Map.empty"
  using assms by (simp add: Flashes_all_def fromReq_cached copy_of_def)

text \<open>
  C2, as amended. Let the record that \<open>fromReq\<close> obtains for the request have the
  flash map \<open>f0\<close> (not the nil map). After the pairs \<open>kvs\<close> have been stored with
  \<open>Flash\<close>, in order, the first \<open>Flashes\<close> returns \<open>f0\<close> overridden by the pairs (the
  last value stored for a key wins), so exactly the stored pairs when \<open>f0\<close> is
  empty, as it is for a request without a session cookie; the next \<open>Flashes\<close>
  returns an empty map.
\<close>

theorem Flash_then_Flashes:
  assumes "fromReq s r \<sigma> = (p, \<sigma>0)" and "Flashes (heap \<sigma>0 p) = Some f0"
  shows "\<exists>w1 r1 \<sigma>1 w2 r2 \<sigma>2.
           Flash_each s w r kvs \<sigma> = Inr (w1, r1, \<sigma>1)
           \<and> Flashes_all s w1 r1 \<sigma>1 = (Some (f0 ++ map_of (rev kvs)), w2, r2, \<sigma>2)
           \<and> fst (Flashes_all s w2 r2 \<sigma>2) = Some Map.empty"
proof (cases kvs)
  case Nil
  from Flashes_all_step [OF assms(1), where w = w] obtain w2 r2 \<sigma>2 where
    a: "Flashes_all s w r \<sigma> = (copy_of (Flashes (heap \<sigma>0 p)), w2, r2, \<sigma>2)"
    and b: "ctx r2 = Some p" and c: "Flashes (heap \<sigma>2 p) = Some Map.empty"
    by blast
  have 1: "Flash_each s w r kvs \<sigma> = Inr (w, r, \<sigma>)"
    by (simp add: Nil)
  have 2: "Flashes_all s w r \<sigma> = (Some (f0 ++ map_of (rev kvs)), w2, r2, \<sigma>2)"
    using a assms(2) by (simp add: Nil copy_of_def)
  have 3: "fst (Flashes_all s w2 r2 \<sigma>2) = Some Map.empty"
    by (rule Flashes_all_cached_empty [OF b c])
  show ?thesis
    apply (intro exI conjI)
      apply (rule 1)
     apply (rule 2)
    apply (rule 3)
    done
next
  case (Cons kv rest)
  obtain k v where kv: "kv = (k, v)" by (cases kv)
  from Flash_step [OF assms, where w = w and k = k and v = v] obtain wa ra \<sigma>a where
    st: "Flash s w r k v \<sigma> = Inr (wa, ra, \<sigma>a)" and sc: "ctx ra = Some p"
    and sf: "Flashes (heap \<sigma>a p) = Some (f0(k \<mapsto> v))"
    by blast
  from Flash_each_cached [OF sc sf, where s = s and w = wa and kvs = rest] obtain w1 r1 \<sigma>1 where
    ea: "Flash_each s wa ra rest \<sigma>a = Inr (w1, r1, \<sigma>1)" and ec: "ctx r1 = Some p"
    and ef: "Flashes (heap \<sigma>1 p) = Some (f0(k \<mapsto> v) ++ map_of (rev rest))"
    by blast
  from Flashes_all_step [OF fromReq_cached [OF ec], where s = s and w = w1 and \<sigma> = \<sigma>1]
  obtain w2 r2 \<sigma>2 where
    fa: "Flashes_all s w1 r1 \<sigma>1 = (copy_of (Flashes (heap \<sigma>1 p)), w2, r2, \<sigma>2)"
    and fc: "ctx r2 = Some p" and ff: "Flashes (heap \<sigma>2 p) = Some Map.empty"
    by blast
  have 1: "Flash_each s w r kvs \<sigma> = Inr (w1, r1, \<sigma>1)"
    using st ea by (simp add: Cons kv)
  have 2: "Flashes_all s w1 r1 \<sigma>1 = (Some (f0 ++ map_of (rev kvs)), w2, r2, \<sigma>2)"
    unfolding fa ef Cons kv map_add_upd_left by (simp add: copy_of_def)
  have 3: "fst (Flashes_all s w2 r2 \<sigma>2) = Some Map.empty"
    by (rule Flashes_all_cached_empty [OF fc ff])
  show ?thesis
    apply (intro exI conjI)
      apply (rule 1)
     apply (rule 2)
    apply (rule 3)
    done
qed

text \<open>
  C2 as stated fails on a request whose cookie already carries a flash entry: after
  one \<open>Flash\<close> of \<open>new\<close>, \<open>Flashes\<close> returns the entry \<open>old\<close> as well, which is not
  among the pairs stored in this request.
\<close>

theorem Flashes_inbound_counterexample:
  "index (case Flash_each example_manager (Plain empty_response) (cookie_request ''signed'')
                 [(''new'', Val 2)] empty_world of
            Inl e \<Rightarrow> None
          | Inr (w1, r1, \<sigma>1) \<Rightarrow> fst (Flashes_all example_manager w1 r1 \<sigma>1)) ''old'' = Val 1
   \<and> index (Some (map_of [(''new'', Val (2::nat))])) ''old'' = NilValue"
  by (simp add: Flash_def Flashes_all_def copy_of_def index_def
        fromReq_def Cookie_def alloc_def store_def zero_session_def session_init_def
        Decode_def printf_unless_quiet_def
        saveCtx_def Encode_def session_cookie_def printf_unless_quiet_def Second_def
        example_manager_def example_codec_def New_def zero_Options_def defaultSessionName_def defaultMaxAge_def sc_MaxAge_def
        cookie_request_def empty_world_def empty_response_def)

theorem Flash_then_Flashes_witness:
  "fromReq example_manager bare_request empty_world
     = (0, snd (fromReq example_manager bare_request empty_world))
   \<and> Flashes (heap (snd (fromReq example_manager bare_request empty_world)) 0) = Some Map.empty
   \<and> (\<exists>w1 r1 \<sigma>1 w2 r2 \<sigma>2.
         Flash_each example_manager (Plain empty_response) bare_request
           [(''flash1'', Val 1), (''flash2'', Val 2)] empty_world = Inr (w1, r1, \<sigma>1)
         \<and> Flashes_all example_manager w1 r1 \<sigma>1
             = (Some [''flash1'' \<mapsto> Val 1, ''flash2'' \<mapsto> Val 2], w2, r2, \<sigma>2)
         \<and> fst (Flashes_all example_manager w2 r2 \<sigma>2) = Some Map.empty)"
proof -
  let ?\<sigma>0 = "snd (fromReq example_manager bare_request empty_world)"
  have h1: "fromReq example_manager bare_request empty_world = (0, ?\<sigma>0)"
    by (simp add: fromReq_def Cookie_def alloc_def store_def zero_session_def session_init_def
        Decode_def printf_unless_quiet_def
        example_manager_def example_codec_def New_def zero_Options_def defaultSessionName_def defaultMaxAge_def sc_MaxAge_def
        bare_request_def empty_world_def)
  have h2: "Flashes (heap ?\<sigma>0 0) = Some Map.empty"
    by (simp add: fromReq_def Cookie_def alloc_def store_def zero_session_def session_init_def
        Decode_def printf_unless_quiet_def
        example_manager_def example_codec_def New_def zero_Options_def defaultSessionName_def defaultMaxAge_def sc_MaxAge_def
        bare_request_def empty_world_def)
  have m: "Map.empty ++ map_of (rev [(''flash1'', Val (1::nat)), (''flash2'', Val 2)])
           = [''flash1'' \<mapsto> Val 1, ''flash2'' \<mapsto> Val 2]"
    by (rule ext) simp
  from Flash_then_Flashes [OF h1 h2, where w = "Plain empty_response"
      and kvs = "[(''flash1'', Val 1), (''flash2'', Val 2)]"]
  have "\<exists>w1 r1 \<sigma>1 w2 r2 \<sigma>2.
         Flash_each example_manager (Plain empty_response) bare_request
           [(''flash1'', Val 1), (''flash2'', Val 2)] empty_world = Inr (w1, r1, \<sigma>1)
         \<and> Flashes_all example_manager w1 r1 \<sigma>1
             = (Some [''flash1'' \<mapsto> Val 1, ''flash2'' \<mapsto> Val 2], w2, r2, \<sigma>2)
         \<and> fst (Flashes_all example_manager w2 r2 \<sigma>2) = Some Map.empty"
    unfolding m .
  with h1 h2 show ?thesis by (intro conjI)
qed

subsection \<open>The middleware when the record does not encode\<close>

lemma mw_finish_encode_error:
  assumes "Encode (sc s) (now \<sigma>) (name s) (heap \<sigma> p) = Inl e"
  shows "fst (mw_finish s p (Wrapped b c w) \<sigma>) = w"
  using assms by (simp add: mw_finish_def)

text \<open>
  C3 does not hold of the code. With a codec that fails to encode, the handler
  has stored status 201 and the body \<open>hi\<close> in the wrapper, and the middleware
  prints the error and returns: the writer that was wrapped has received neither
  the status nor the body. With a codec that encodes, the same handler's status
  and body arrive, after the cookie.
\<close>

theorem TemplMiddleware_encode_failure:
  "created_handler (Wrapped [] 200 (Plain empty_response)) bare_request empty_world
     = Inr (Wrapped ''hi'' 201 (Plain empty_response), bare_request, empty_world)
   \<and> (case TemplMiddleware failing_manager created_handler (Plain empty_response) bare_request
             empty_world of
         Inl e \<Rightarrow> False
       | Inr (w', r', \<sigma>') \<Rightarrow>
           w' = Plain empty_response
           \<and> stdout \<sigma>' = [''sessions: [ERROR} failed to encode cookie: securecookie: the value is too long''])
   \<and> (case TemplMiddleware example_manager created_handler (Plain empty_response) bare_request
             empty_world of
         Inl e \<Rightarrow> False
       | Inr (w', r', \<sigma>') \<Rightarrow>
           w' = Plain \<lparr>set_cookie = [session_cookie example_manager 1000 ''enc-_session''],
                       status = Some 201, body = ''hi'', broken = False\<rparr>
           \<and> stdout \<sigma>' = [])"
  by (simp add: TemplMiddleware_def mw_entry_def mw_finish_def created_handler_def
        Cookie_def alloc_def store_def zero_session_def session_init_def Encode_def
        printf_unless_quiet_def session_cookie_def Second_def
        failing_manager_def failing_codec_def New_def zero_Options_def defaultSessionName_def defaultMaxAge_def sc_MaxAge_def
        example_manager_def example_codec_def
        bare_request_def empty_world_def empty_response_def)

subsection \<open>The maps of the record that fromReq returns\<close>

lemma fromReq_initialised:
  assumes "ctx r = None"
    and "Cookie r (name s) = None
         \<or> (\<exists>v. Cookie r (name s) = Some v
                \<and> fst (Decode (sc s) (now \<sigma>) (name s) v zero_session) \<noteq> None)"
  shows "Data (heap (snd (fromReq s r \<sigma>)) (fst (fromReq s r \<sigma>))) \<noteq> None
         \<and> Flashes (heap (snd (fromReq s r \<sigma>)) (fst (fromReq s r \<sigma>))) \<noteq> None"
  using assms
  by (auto simp: fromReq_def alloc_def store_def session_init_def zero_session_def Let_def
        printf_unless_quiet_def split: prod.splits option.splits)

lemma fromReq_decoded:
  assumes "ctx r = None" and "Cookie r (name s) = Some v"
    and "Decode (sc s) (now \<sigma>) (name s) v zero_session = (None, ss)"
  shows "heap (snd (fromReq s r \<sigma>)) (fst (fromReq s r \<sigma>)) = ss"
  using assms by (simp add: fromReq_def alloc_def store_def)

text \<open>
  C6 does not hold of the code. When the codec decodes the cookie without an error,
  \<open>fromReq\<close> returns the record as the codec has left it, without \<open>init\<close>. The
  example codec decodes the value \<open>partial\<close> filling the flash map only: the record
  returned has the nil data map, nothing is printed, \<open>Get\<close> and \<open>List\<close> expose it, and
  \<open>Set\<close> on the request panics.
\<close>

theorem fromReq_decoded_nil_map:
  "Data (heap (snd (fromReq example_manager (cookie_request ''partial'') empty_world))
              (fst (fromReq example_manager (cookie_request ''partial'') empty_world))) = None
   \<and> stdout (snd (fromReq example_manager (cookie_request ''partial'') empty_world)) = []
   \<and> fst (List example_manager (cookie_request ''partial'') empty_world) = None
   \<and> Set example_manager (Plain empty_response) (cookie_request ''partial'') ''key'' (Val 5)
        empty_world = Inl NilMapWrite"
  by (simp add: List_def Set_def
        fromReq_def Cookie_def alloc_def store_def zero_session_def session_init_def
        Decode_def printf_unless_quiet_def
        example_manager_def example_codec_def New_def zero_Options_def defaultSessionName_def defaultMaxAge_def sc_MaxAge_def
        cookie_request_def empty_world_def)

subsection \<open>The cookie that a commit issues\<close>









subsection \<open>Delete\<close>



subsection \<open>The maximum age that New hands to the codec\<close>

lemma New_maxAge:
  "maxAge (sc (New securecookie_New secret (opts @ [opt])))
   = (if MaxAge opt = 0 then defaultMaxAge else if MaxAge opt = - 1 then 0 else MaxAge opt)"
  by (simp add: New_def sc_MaxAge_def Let_def)

text \<open>
  C8, as amended. With the maximum age \<open>-1\<close> in the options, the manager's codec is
  set to the maximum age \<open>0\<close>, which disables its expiry check. Every other negative
  maximum age is handed to the codec as it is, and does not disable the check.
\<close>

theorem New_negative_max_age:
  assumes "MaxAge opt1 = - 1" and "MaxAge opt2 < - 1"
  shows "expiry_disabled (sc (New securecookie_New secret (opts @ [opt1])))
         \<and> maxAge (sc (New securecookie_New secret (opts @ [opt2]))) = MaxAge opt2
         \<and> \<not> expiry_disabled (sc (New securecookie_New secret (opts @ [opt2])))"
  using assms by (simp add: New_maxAge expiry_disabled_def)

theorem New_negative_max_age_witness:
  "MaxAge \<lparr>Name = [], MaxAge = - 1, Quiet = False\<rparr> = - 1
   \<and> MaxAge \<lparr>Name = [], MaxAge = - 7, Quiet = False\<rparr> < - 1
   \<and> expiry_disabled
        (sc (New example_codec ''secret'' ([] @ [\<lparr>Name = [], MaxAge = - 1, Quiet = False\<rparr>])))
   \<and> maxAge (sc (New example_codec ''secret'' ([] @ [\<lparr>Name = [], MaxAge = - 7, Quiet = False\<rparr>])))
       = - 7"
proof -
  have h1: "MaxAge \<lparr>Name = [], MaxAge = - 1, Quiet = False\<rparr> = - 1" by simp
  have h2: "MaxAge \<lparr>Name = [], MaxAge = - 7, Quiet = False\<rparr> < - 1" by simp
  from New_negative_max_age [OF h1 h2, of example_codec "''secret''" "[]"] h1 h2
  show ?thesis by simp
qed

text \<open>
  C8 as stated fails for the maximum age \<open>-2\<close>: the codec is given \<open>-2\<close>, not \<open>0\<close>, so its
  expiry check stays on.
\<close>

theorem New_negative_max_age_counterexample:
  "maxAge (sc (New example_codec ''secret'' [\<lparr>Name = [], MaxAge = - 2, Quiet = False\<rparr>])) = - 2
   \<and> \<not> expiry_disabled
          (sc (New example_codec ''secret'' [\<lparr>Name = [], MaxAge = - 2, Quiet = False\<rparr>]))"
  by (simp add: New_def zero_Options_def defaultSessionName_def defaultMaxAge_def sc_MaxAge_def
        expiry_disabled_def example_codec_def)

subsection \<open>Excluded paths\<close>

text \<open>
  C9. The middleware with a list of excluded paths is the plain middleware when the
  list is empty. A request to an excluded path, coming with no record in its
  context, reaches the handler as it came: the cookie is not decoded and nothing
  is attached, so a handler that calls \<open>FlashesCtx\<close> on the request's context gets
  an empty map (and the warning is printed unless the manager is quiet).
\<close>

theorem TemplMiddleware_paths_excluded:
  assumes "path r \<in> set paths" and "ctx r = None"
  shows "TemplMiddleware_paths s
           (\<lambda>w r \<sigma>. case FlashesCtx s (ctx r) \<sigma> of (flashes, \<sigma>1) \<Rightarrow> k flashes w r \<sigma>1)
           paths w r \<sigma>
         = k (Some Map.empty) w r (printf_unless_quiet s FlashesCtx_warning \<sigma>)
         \<and> TemplMiddleware_paths s next [] w r \<sigma> = TemplMiddleware s next w r \<sigma>"
  using assms by (simp add: TemplMiddleware_paths_def FlashesCtx_def)

theorem TemplMiddleware_paths_excluded_witness:
  "path ((cookie_request ''signed'')\<lparr>path := ''/skip-me''\<rparr>) \<in> set [''/skip-me'']
   \<and> ctx ((cookie_request ''signed'')\<lparr>path := ''/skip-me''\<rparr>) = None
   \<and> TemplMiddleware_paths example_manager (skip_me_handler example_manager) [''/skip-me'']
        (Plain empty_response) ((cookie_request ''signed'')\<lparr>path := ''/skip-me''\<rparr>) empty_world
       = Inr (Plain (empty_response\<lparr>status := Some 204\<rparr>),
              (cookie_request ''signed'')\<lparr>path := ''/skip-me''\<rparr>,
              empty_world\<lparr>stdout := [FlashesCtx_warning]\<rparr>)"
proof -
  let ?r = "(cookie_request ''signed'')\<lparr>path := ''/skip-me''\<rparr>"
  let ?k = "\<lambda>(flashes :: nat gomap) w r (\<sigma>1 :: nat world).
     Inr (WriteHeader w (if index flashes ''key'' = NilValue then 204 else 500), r, \<sigma>1)"
  have h1: "path ?r \<in> set [''/skip-me'']" by simp
  have h2: "ctx ?r = None" by (simp add: cookie_request_def)
  have hd: "skip_me_handler example_manager
            = (\<lambda>w r \<sigma>. case FlashesCtx example_manager (ctx r) \<sigma> of
                 (flashes, \<sigma>1) \<Rightarrow> ?k flashes w r \<sigma>1)"
    by (intro ext) (simp add: skip_me_handler_def)
  have ev: "?k (Some Map.empty) (Plain empty_response) ?r
              (printf_unless_quiet example_manager FlashesCtx_warning empty_world)
            = Inr (Plain (empty_response\<lparr>status := Some 204\<rparr>), ?r,
                   empty_world\<lparr>stdout := [FlashesCtx_warning]\<rparr>)"
    by (simp add: index_def printf_unless_quiet_def
        example_manager_def example_codec_def New_def zero_Options_def defaultSessionName_def defaultMaxAge_def sc_MaxAge_def
        empty_world_def empty_response_def)
  have "TemplMiddleware_paths example_manager (skip_me_handler example_manager) [''/skip-me'']
          (Plain empty_response) ?r empty_world
        = ?k (Some Map.empty) (Plain empty_response) ?r
            (printf_unless_quiet example_manager FlashesCtx_warning empty_world)"
    using TemplMiddleware_paths_excluded [where s = example_manager and k = ?k
          and w = "Plain empty_response" and \<sigma> = empty_world, OF h1 h2, THEN conjunct1]
    unfolding hd .
  with ev h1 h2 show ?thesis by simp
qed

subsection \<open>Read-only accessors and the cache\<close>

lemma fromReq_decodes:
  assumes "ctx r = None" and "Cookie r (name s) = Some v"
  shows "calls (snd (fromReq s r \<sigma>)) = calls \<sigma> @ [DecodeCall (name s) v]
         \<and> fst (fromReq s r \<sigma>) = nxt \<sigma> \<and> nxt (snd (fromReq s r \<sigma>)) = Suc (nxt \<sigma>)"
  using assms
  by (simp add: fromReq_def alloc_def store_def Let_def printf_unless_quiet_def
        split: prod.splits option.splits)

text \<open>
  C10. Let the request have no record in its context and carry the session cookie.
  \<open>Get\<close> and \<open>List\<close> take the request and give none back: the source assigns nothing
  to it. Each call decodes the cookie once, into a record of its own, and a call
  that follows on the same request decodes it again. Only after \<open>saveCtx\<close> does the
  request hold the record: a \<open>Get\<close> on the request that \<open>saveCtx\<close> returns decodes
  nothing and leaves the world as it is.
\<close>

theorem read_only_accessors_decode_anew:
  assumes "ctx r = None" and "Cookie r (name s) = Some v"
  shows "calls (snd (Get s r k \<sigma>)) = calls \<sigma> @ [DecodeCall (name s) v]
         \<and> calls (snd (List s r \<sigma>)) = calls \<sigma> @ [DecodeCall (name s) v]
         \<and> calls (snd (Get s r k2 (snd (Get s r k \<sigma>))))
             = calls \<sigma> @ [DecodeCall (name s) v, DecodeCall (name s) v]
         \<and> calls (snd (List s r (snd (List s r \<sigma>))))
             = calls \<sigma> @ [DecodeCall (name s) v, DecodeCall (name s) v]
         \<and> fst (fromReq s r (snd (Get s r k \<sigma>))) \<noteq> fst (fromReq s r \<sigma>)
         \<and> ctx (fst (snd (saveCtx s w r p \<sigma>))) = Some p
         \<and> snd (Get s (fst (snd (saveCtx s w r p \<sigma>))) k \<sigma>2) = \<sigma>2"
proof -
  note d = fromReq_decodes [OF assms]
  have g: "snd (Get s r k \<sigma>) = snd (fromReq s r \<sigma>)" for k \<sigma>
    by (simp add: Get_def split: prod.splits)
  have l: "snd (List s r \<sigma>) = snd (fromReq s r \<sigma>)" for \<sigma>
    by (simp add: List_def split: prod.splits)
  have c: "ctx (fst (snd (saveCtx s w r p \<sigma>))) = Some p"
    using saveCtx_shape [of s w r p \<sigma>] by auto
  have "snd (Get s (fst (snd (saveCtx s w r p \<sigma>))) k \<sigma>2) = \<sigma>2"
    by (simp add: Get_def fromReq_cached [OF c])
  with c show ?thesis
    by (simp add: g l d)
qed

theorem read_only_accessors_decode_anew_witness:
  "ctx (cookie_request ''signed'') = None
   \<and> Cookie (cookie_request ''signed'') (name example_manager) = Some ''signed''
   \<and> calls (snd (Get example_manager (cookie_request ''signed'') ''name''
                (snd (Get example_manager (cookie_request ''signed'') ''name'' empty_world))))
       = [DecodeCall ''_session'' ''signed'', DecodeCall ''_session'' ''signed'']
   \<and> fst (Get example_manager (cookie_request ''signed'') ''name''
                (snd (Get example_manager (cookie_request ''signed'') ''name'' empty_world)))
       = Val 7"
proof -
  have h1: "ctx (cookie_request ''signed'') = None"
    by (simp add: cookie_request_def)
  have h2: "Cookie (cookie_request ''signed'') (name example_manager) = Some ''signed''"
    by (simp add: Get_def index_def
        fromReq_def Cookie_def alloc_def store_def zero_session_def session_init_def
        Decode_def printf_unless_quiet_def
        example_manager_def example_codec_def New_def zero_Options_def defaultSessionName_def defaultMaxAge_def sc_MaxAge_def
        cookie_request_def empty_world_def)
  have n: "name example_manager = ''_session''" "calls empty_world = []"
    by (simp_all add: Get_def index_def
        fromReq_def Cookie_def alloc_def store_def zero_session_def session_init_def
        Decode_def printf_unless_quiet_def
        example_manager_def example_codec_def New_def zero_Options_def defaultSessionName_def defaultMaxAge_def sc_MaxAge_def
        cookie_request_def empty_world_def)
  have v: "fst (Get example_manager (cookie_request ''signed'') ''name''
                (snd (Get example_manager (cookie_request ''signed'') ''name'' empty_world)))
           = Val 7"
    by (simp add: Get_def index_def
        fromReq_def Cookie_def alloc_def store_def zero_session_def session_init_def
        Decode_def printf_unless_quiet_def
        example_manager_def example_codec_def New_def zero_Options_def defaultSessionName_def defaultMaxAge_def sc_MaxAge_def
        cookie_request_def empty_world_def)
  from read_only_accessors_decode_anew [OF h1 h2, of "''name''" empty_world "''name''"]
  have "calls (snd (Get example_manager (cookie_request ''signed'') ''name''
                (snd (Get example_manager (cookie_request ''signed'') ''name'' empty_world))))
       = [DecodeCall ''_session'' ''signed'', DecodeCall ''_session'' ''signed'']"
    by (simp add: n)
  with h1 h2 v show ?thesis by (intro conjI)
qed

end
